theory Spec2Isabelle
  imports Main
begin

section \<open>Values kept by the store\<close>

text \<open>
  The store of \<^verbatim>\<open>database/db_manager.py\<close> is an SQLite file per client. Two text columns hold
  JSON written with \<^verbatim>\<open>json.dumps\<close> and read with \<^verbatim>\<open>json.loads\<close>: \<^verbatim>\<open>industry_data.tags\<close> and
  \<^verbatim>\<open>clients.campaign_parameters\<close>. The JSON library is not part of the repository, so a text
  cell of these columns is modelled by what \<^verbatim>\<open>json.loads\<close> makes of it:
  \<^item> \<open>JsonText v\<close>, a text that it reads as the value \<open>v\<close>;
  \<^item> \<open>EmptyText\<close>, the empty string, and \<open>MalformedText\<close>, a non-empty string that is not a JSON
    document: it raises \<^verbatim>\<open>JSONDecodeError\<close>;
  \<^item> \<open>DeepText\<close>, a text nested deeper than the interpreter's recursion limit (2000 opening
    brackets): it raises \<^verbatim>\<open>RecursionError\<close>;
  \<^item> \<open>LongNumberText\<close>, a text with an integer literal of more digits than the interpreter
    converts (4301 digits): it raises \<^verbatim>\<open>ValueError\<close>.

  Numbers are integers only. Timestamps written by \<^verbatim>\<open>CURRENT_TIMESTAMP\<close> are natural numbers
  (seconds); every writing operation takes the current time as its argument \<open>now\<close>. Integers
  handed to SQLite are taken to fit its 64-bit INTEGER, and the storage medium is taken to be
  available.
\<close>

datatype json =
    JNull
  | JBool bool
  | JNumber int
  | JString string
  | JArray "json list"
  | JObject "(string \<times> json) list"

datatype text_cell = JsonText json | EmptyText | MalformedText | DeepText | LongNumberText

text \<open>
  The exceptions of the model. \<^verbatim>\<open>OperationalError\<close> is \<^verbatim>\<open>sqlite3.OperationalError\<close>, which
  \<^verbatim>\<open>execute\<close> raises when a statement cannot be prepared or when a Python function called from
  the statement raises.
\<close>

datatype py_error = JSONDecodeError | RecursionError | ValueError | OperationalError

definition json_dumps :: "json \<Rightarrow> text_cell" where
  "json_dumps v = JsonText v"

fun json_loads :: "text_cell \<Rightarrow> py_error + json" where
  "json_loads (JsonText v) = Inr v"
| "json_loads EmptyText = Inl JSONDecodeError"
| "json_loads MalformedText = Inl JSONDecodeError"
| "json_loads DeepText = Inl RecursionError"
| "json_loads LongNumberText = Inl ValueError"

text \<open>A Python list of strings, as \<^verbatim>\<open>json.dumps\<close> sees it.\<close>

definition json_of_tags :: "string list \<Rightarrow> json" where
  "json_of_tags ts = JArray (map JString ts)"

text \<open>
  A value of a Python dictionary typed \<^verbatim>\<open>Dict[str, Any]\<close> that is bound to a statement
  parameter: \<^verbatim>\<open>None\<close>, a string, or an object of a type \<^verbatim>\<open>sqlite3\<close> cannot bind (a list, a
  dictionary, ...), for which \<^verbatim>\<open>execute\<close> raises a subclass of \<^verbatim>\<open>sqlite3.Error\<close>. Numbers
  and byte strings are left out.
\<close>

datatype pyval = PyNone | PyStr string | PyOther

datatype sqlite_error = SqliteError

definition bind_param :: "pyval \<Rightarrow> sqlite_error + string option" where
  "bind_param v = (case v of PyNone \<Rightarrow> Inr None | PyStr s \<Rightarrow> Inr (Some s) | PyOther \<Rightarrow> Inl SqliteError)"

fun bind_params :: "pyval list \<Rightarrow> sqlite_error + string option list" where
  "bind_params [] = Inr []"
| "bind_params (v # vs) =
     (case bind_param v of
        Inl e \<Rightarrow> Inl e
      | Inr x \<Rightarrow> (case bind_params vs of Inl e \<Rightarrow> Inl e | Inr xs \<Rightarrow> Inr (x # xs)))"

section \<open>Tables\<close>

record 'p client_row =
  c_telegram_handle :: string
  c_email :: string
  c_industry :: string
  c_location :: string
  c_campaign_parameters :: 'p
  c_created_at :: nat

record 't industry_row =
  i_id :: int
  i_source :: string
  i_title :: "string option"
  i_content :: string
  i_pain_points :: string
  i_tags :: 't
  i_crawled_at :: "string option"
  i_created_at :: nat

record lead_row =
  l_id :: int
  l_company_name :: "string option"
  l_website :: "string option"
  l_contact_info :: "string option"
  l_details :: "string option"
  l_created_at :: nat

record solution_row =
  s_id :: int
  s_lead_id :: int
  s_solution_text :: string
  s_generated_at :: nat
  s_status :: string

record outreach_row =
  o_id :: int
  o_lead_id :: int
  o_message_sent :: string
  o_sent_at :: nat
  o_response :: "string option"
  o_updated_at :: "nat option"

text \<open>
  The tables of \<^verbatim>\<open>_init_database\<close>, each a list of rows in rowid order, and the
  \<^verbatim>\<open>sqlite_sequence\<close> counter of each \<^verbatim>\<open>AUTOINCREMENT\<close> table.
\<close>

record database =
  clients :: "text_cell client_row list"
  industry_data :: "text_cell option industry_row list"
  lead_bucket :: "lead_row list"
  tailored_solutions :: "solution_row list"
  outreach_log :: "outreach_row list"
  seq_industry_data :: int
  seq_lead_bucket :: int
  seq_tailored_solutions :: int
  seq_outreach_log :: int

definition empty_database :: database where
  "empty_database =
     \<lparr>clients = [], industry_data = [], lead_bucket = [], tailored_solutions = [],
      outreach_log = [], seq_industry_data = 0, seq_lead_bucket = 0,
      seq_tailored_solutions = 0, seq_outreach_log = 0\<rparr>"

text \<open>
  \<^verbatim>\<open>INTEGER PRIMARY KEY AUTOINCREMENT\<close>: the new rowid is one more than the largest rowid the
  table has ever held (the counter, or a larger rowid present in the table).
\<close>

definition next_rowid :: "int \<Rightarrow> int list \<Rightarrow> int" where
  "next_rowid seq ids = fold max ids seq + 1"

text \<open>
  \<^verbatim>\<open>ORDER BY key DESC\<close> over a scan in rowid order. SQL leaves the order of rows with equal
  keys open; the model keeps them in scan order. \<^verbatim>\<open>LIMIT n\<close> keeps the first \<open>n\<close> rows, and
  all rows when \<open>n\<close> is negative.
\<close>

definition order_by_desc :: "('a \<Rightarrow> nat) \<Rightarrow> 'a list \<Rightarrow> 'a list" where
  "order_by_desc key rows = rev (sort_key key (rev rows))"

definition sql_limit :: "int \<Rightarrow> 'a list \<Rightarrow> 'a list" where
  "sql_limit n rows = (if n < 0 then rows else take (nat n) rows)"

text \<open>
  A \<^verbatim>\<open>WHERE\<close> clause is evaluated on every row of the scan, in scan order; the first row on
  which it raises ends the statement with that error.
\<close>

fun sql_where :: "('a \<Rightarrow> py_error + bool) \<Rightarrow> 'a list \<Rightarrow> py_error + 'a list" where
  "sql_where cond [] = Inr []"
| "sql_where cond (r # rs) =
     (case cond r of
        Inl e \<Rightarrow> Inl e
      | Inr b \<Rightarrow>
          (case sql_where cond rs of
             Inl e \<Rightarrow> Inl e
           | Inr ys \<Rightarrow> Inr (if b then r # ys else ys)))"

text \<open>
  A Python function registered with \<^verbatim>\<open>create_function\<close>: whatever it raises reaches the caller
  of \<^verbatim>\<open>execute\<close> as \<^verbatim>\<open>sqlite3.OperationalError\<close> (user-defined function raised exception).
\<close>

definition sql_function_call :: "py_error + 'a \<Rightarrow> py_error + 'a" where
  "sql_function_call r = (case r of Inl e \<Rightarrow> Inl OperationalError | Inr x \<Rightarrow> Inr x)"

text \<open>
  SQLite refuses to prepare a statement whose expression tree is deeper than 1000 (its default
  \<^verbatim>\<open>SQLITE_MAX_EXPR_DEPTH\<close>). A function call with its arguments has depth 2, and each \<^verbatim>\<open>OR\<close>
  that joins one more call adds 1: a chain of \<open>n\<close> calls has depth \<open>n + 1\<close>. The number of
  bound parameters is no earlier limit: SQLite takes 32766 of them (since version 3.32).
\<close>

definition max_expr_depth :: nat where
  "max_expr_depth = 1000"

definition or_chain_depth :: "nat \<Rightarrow> nat" where
  "or_chain_depth n = n + 1"

section \<open>The tag predicate\<close>

text \<open>
  \<^verbatim>\<open>_json_array_contains(json_array, value)\<close>: false for \<^verbatim>\<open>NULL\<close> and for the empty string
  (\<^verbatim>\<open>if not json_array\<close>), false when \<^verbatim>\<open>json.loads\<close> raises \<^verbatim>\<open>JSONDecodeError\<close>, false when the
  value read is not a list, and \<^verbatim>\<open>value in array\<close> otherwise. A string equals a JSON value only
  if that value is the same string. The handler names \<^verbatim>\<open>json.JSONDecodeError\<close> only: any other
  error of \<^verbatim>\<open>json.loads\<close> leaves the function.
\<close>

definition json_array_contains :: "text_cell option \<Rightarrow> string \<Rightarrow> py_error + bool" where
  "json_array_contains json_array v =
     (case json_array of
        None \<Rightarrow> Inr False
      | Some t \<Rightarrow>
          if t = EmptyText then Inr False
          else (case json_loads t of
                  Inl e \<Rightarrow> (if e = JSONDecodeError then Inr False else Inl e)
                | Inr array \<Rightarrow>
                    Inr (case array of JArray xs \<Rightarrow> JString v \<in> set xs | _ \<Rightarrow> False)))"

text \<open>Python's truth value of an optional list: \<^verbatim>\<open>None\<close> and \<^verbatim>\<open>[]\<close> are false.\<close>

definition truthy :: "'a list option \<Rightarrow> bool" where
  "truthy xs = (case xs of None \<Rightarrow> False | Some ys \<Rightarrow> ys \<noteq> [])"

definition given :: "'a list option \<Rightarrow> 'a list" where
  "given xs = (case xs of None \<Rightarrow> [] | Some ys \<Rightarrow> ys)"

section \<open>Industry data\<close>

text \<open>
  \<^verbatim>\<open>add_industry_data\<close>: one \<^verbatim>\<open>INSERT\<close>; the tags are stored as \<^verbatim>\<open>json.dumps(tags) if tags else
  None\<close>; the result is \<^verbatim>\<open>cursor.lastrowid\<close>.
\<close>

definition add_industry_data ::
  "database \<Rightarrow> nat \<Rightarrow> string \<Rightarrow> string \<Rightarrow> string \<Rightarrow> string option \<Rightarrow> string list option \<Rightarrow>
   string option \<Rightarrow> int \<times> database" where
  "add_industry_data db now source content pain_points title tags crawled_at =
     (let rid = next_rowid (seq_industry_data db) (map i_id (industry_data db));
          row = \<lparr>i_id = rid, i_source = source, i_title = title, i_content = content,
                 i_pain_points = pain_points,
                 i_tags = (if truthy tags then Some (json_dumps (json_of_tags (given tags)))
                           else None),
                 i_crawled_at = crawled_at, i_created_at = now\<rparr>
      in (rid, db\<lparr>industry_data := industry_data db @ [row], seq_industry_data := rid\<rparr>))"

text \<open>
  What \<^verbatim>\<open>data['tags']\<close> holds in a returned dictionary: \<^verbatim>\<open>None\<close>, the empty string left as it
  was read, or the value \<^verbatim>\<open>json.loads\<close> returned. The loop over the fetched rows replaces the
  cell by \<^verbatim>\<open>None\<close> when \<^verbatim>\<open>json.loads\<close> raises \<^verbatim>\<open>JSONDecodeError\<close>; any other error leaves the
  operation.
\<close>

datatype py_tags = TagsNone | TagsEmptyStr | TagsValue json

definition decode_tags :: "text_cell option \<Rightarrow> py_error + py_tags" where
  "decode_tags cell =
     (case cell of
        None \<Rightarrow> Inr TagsNone
      | Some t \<Rightarrow>
          if t = EmptyText then Inr TagsEmptyStr
          else (case json_loads t of
                  Inl e \<Rightarrow> (if e = JSONDecodeError then Inr TagsNone else Inl e)
                | Inr v \<Rightarrow> Inr (TagsValue v)))"

definition industry_dict ::
  "text_cell option industry_row \<Rightarrow> py_error + py_tags industry_row" where
  "industry_dict r =
     (case decode_tags (i_tags r) of
        Inl e \<Rightarrow> Inl e
      | Inr tags \<Rightarrow>
          Inr \<lparr>i_id = i_id r, i_source = i_source r, i_title = i_title r,
               i_content = i_content r, i_pain_points = i_pain_points r, i_tags = tags,
               i_crawled_at = i_crawled_at r, i_created_at = i_created_at r\<rparr>)"

fun result_dicts ::
  "text_cell option industry_row list \<Rightarrow> py_error + py_tags industry_row list" where
  "result_dicts [] = Inr []"
| "result_dicts (r # rs) =
     (case industry_dict r of
        Inl e \<Rightarrow> Inl e
      | Inr d \<Rightarrow> (case result_dicts rs of Inl e \<Rightarrow> Inl e | Inr ds \<Rightarrow> Inr (d # ds)))"

text \<open>
  The \<^verbatim>\<open>WHERE\<close> clause built from the requested tags: one \<^verbatim>\<open>json_array_contains(tags, ?)\<close> per
  tag, joined by \<^verbatim>\<open>OR\<close> and evaluated from the left.
\<close>

fun tag_conditions :: "string list \<Rightarrow> text_cell option industry_row \<Rightarrow> py_error + bool" where
  "tag_conditions [] r = Inr False"
| "tag_conditions (t # ts) r =
     (case sql_function_call (json_array_contains (i_tags r) t) of
        Inl e \<Rightarrow> Inl e
      | Inr b \<Rightarrow> if b then Inr True else tag_conditions ts r)"

definition select_industry ::
  "database \<Rightarrow> string list option \<Rightarrow> py_error + text_cell option industry_row list" where
  "select_industry db tags =
     (if truthy tags then sql_where (tag_conditions (given tags)) (industry_data db)
      else Inr (industry_data db))"

text \<open>
  \<^verbatim>\<open>get_industry_data\<close>. The statement is prepared first, which fails when the chain of
  requested tags is too deep. With a limit of 0 SQLite returns no row without running the scan.
  Otherwise the scan runs over the whole table (the rows are sorted before the limit cuts),
  and the loop decodes the tags of the rows fetched.
\<close>

definition get_industry_data ::
  "database \<Rightarrow> int \<Rightarrow> string list option \<Rightarrow> py_error + py_tags industry_row list" where
  "get_industry_data db limit tags =
     (if truthy tags \<and> max_expr_depth < or_chain_depth (length (given tags))
      then Inl OperationalError
      else if limit = 0 then Inr []
      else (case select_industry db tags of
              Inl e \<Rightarrow> Inl e
            | Inr rows \<Rightarrow> result_dicts (sql_limit limit (order_by_desc i_created_at rows))))"

text \<open>
  SQLite's \<^verbatim>\<open>LIKE\<close>: \<^verbatim>\<open>%\<close> matches any run of characters, \<^verbatim>\<open>_\<close> any one character, and letters
  of ASCII match without regard to case. A \<^verbatim>\<open>NULL\<close> operand makes the comparison fail.
\<close>

definition ascii_lower :: "char \<Rightarrow> char" where
  "ascii_lower c =
     (if 65 \<le> (of_char c :: nat) \<and> (of_char c :: nat) \<le> 90 then char_of (of_char c + 32 :: nat)
      else c)"

fun sql_like :: "string \<Rightarrow> string \<Rightarrow> bool" where
  "sql_like [] s = (s = [])"
| "sql_like (p # ps) [] = (p = CHR ''%'' \<and> sql_like ps [])"
| "sql_like (p # ps) (c # cs) =
     (if p = CHR ''%'' then sql_like ps (c # cs) \<or> sql_like (p # ps) cs
      else (p = CHR ''_'' \<or> ascii_lower p = ascii_lower c) \<and> sql_like ps cs)"

definition keyword_condition :: "string \<Rightarrow> text_cell option industry_row \<Rightarrow> bool" where
  "keyword_condition keyword r =
     (let pat = ''%'' @ keyword @ ''%''
      in sql_like pat (i_content r) \<or>
         (case i_title r of None \<Rightarrow> False | Some t \<Rightarrow> sql_like pat t))"

text \<open>
  \<^verbatim>\<open>search_industry_data\<close>: with tags the clause is
  \<^verbatim>\<open>(tag conditions) AND (content LIKE ? OR title LIKE ?)\<close>, one level deeper than the chain of
  tags, and the tag conditions are evaluated first; without tags it is the keyword condition
  alone. There is no limit.
\<close>

definition search_condition ::
  "string \<Rightarrow> string list option \<Rightarrow> text_cell option industry_row \<Rightarrow> py_error + bool" where
  "search_condition keyword tags r =
     (if truthy tags
      then (case tag_conditions (given tags) r of
              Inl e \<Rightarrow> Inl e
            | Inr b \<Rightarrow> Inr (b \<and> keyword_condition keyword r))
      else Inr (keyword_condition keyword r))"

definition search_industry_data ::
  "database \<Rightarrow> string \<Rightarrow> string list option \<Rightarrow> py_error + py_tags industry_row list" where
  "search_industry_data db keyword tags =
     (if truthy tags \<and> max_expr_depth < or_chain_depth (length (given tags)) + 1
      then Inl OperationalError
      else (case sql_where (search_condition keyword tags) (industry_data db) of
              Inl e \<Rightarrow> Inl e
            | Inr rows \<Rightarrow> result_dicts (order_by_desc i_created_at rows)))"

section \<open>Malformed tag data\<close>


text \<open>
  The stored cell is \<^verbatim>\<open>NULL\<close>, or \<^verbatim>\<open>json.loads\<close> reads it or rejects it with
  \<^verbatim>\<open>JSONDecodeError\<close>.
\<close>

definition loads_cleanly :: "text_cell option \<Rightarrow> bool" where
  "loads_cleanly cell =
     (case cell of Some DeepText \<Rightarrow> False | Some LongNumberText \<Rightarrow> False | _ \<Rightarrow> True)"

definition clean_store :: "database \<Rightarrow> bool" where
  "clean_store db = list_all (\<lambda>r. loads_cleanly (i_tags r)) (industry_data db)"

text \<open>
  What a reader is given for such a cell and for its row: \<^verbatim>\<open>None\<close> for \<^verbatim>\<open>NULL\<close> and for a text
  that is not a JSON document, the empty string as it is, the value of a JSON text.
\<close>

definition read_tags :: "text_cell option \<Rightarrow> py_tags" where
  "read_tags cell =
     (case cell of
        Some (JsonText v) \<Rightarrow> TagsValue v
      | Some EmptyText \<Rightarrow> TagsEmptyStr
      | _ \<Rightarrow> TagsNone)"

definition entry_view :: "text_cell option industry_row \<Rightarrow> py_tags industry_row" where
  "entry_view r =
     \<lparr>i_id = i_id r, i_source = i_source r, i_title = i_title r, i_content = i_content r,
      i_pain_points = i_pain_points r, i_tags = read_tags (i_tags r),
      i_crawled_at = i_crawled_at r, i_created_at = i_created_at r\<rparr>"


definition ex_deep_row :: "text_cell option industry_row" where
  "ex_deep_row = \<lparr>i_id = 1, i_source = ''u'', i_title = None, i_content = ''Sales'',
     i_pain_points = ''p'', i_tags = Some DeepText, i_crawled_at = None, i_created_at = 5\<rparr>"

text \<open>
  The tags of a stored entry: the strings of the list its cell holds, and none when the cell is
  \<^verbatim>\<open>NULL\<close> or does not hold a list.
\<close>

definition stored_tags :: "text_cell option \<Rightarrow> string list" where
  "stored_tags cell =
     (case cell of
        Some (JsonText (JArray xs)) \<Rightarrow> concat (map (\<lambda>j. case j of JString t \<Rightarrow> [t] | _ \<Rightarrow> []) xs)
      | _ \<Rightarrow> [])"

text \<open>
  The query as the specification words it: the entries whose tags meet the requested ones (all
  entries when no tag is requested), newest first, at most \<open>limit\<close> of them.
\<close>

definition matching_entries ::
  "database \<Rightarrow> string list option \<Rightarrow> text_cell option industry_row list" where
  "matching_entries db tags =
     (if truthy tags
      then filter (\<lambda>e. set (stored_tags (i_tags e)) \<inter> set (given tags) \<noteq> {}) (industry_data db)
      else industry_data db)"

definition spec_query :: "database \<Rightarrow> int \<Rightarrow> string list option \<Rightarrow> py_tags industry_row list" where
  "spec_query db limit tags =
     map entry_view (take (nat limit) (order_by_desc i_created_at (matching_entries db tags)))"

text \<open>Two entries, tagged \<^verbatim>\<open>sales_statistics\<close> and \<^verbatim>\<open>sales_trends\<close>, stored one second apart.\<close>

definition ex_store :: database where
  "ex_store =
     snd (add_industry_data
            (snd (add_industry_data empty_database 1 ''https://a.example/stats'' ''sales figures''
                    ''p'' (Some ''Stats'') (Some [''sales_statistics'']) None))
            2 ''https://b.example/trends'' ''sales outlook'' ''p'' None (Some [''sales_trends''])
            None)"

section \<open>Clients\<close>

text \<open>
  \<^verbatim>\<open>create_client\<close>: one \<^verbatim>\<open>INSERT\<close> into \<^verbatim>\<open>clients\<close>, whose primary key is \<^verbatim>\<open>telegram_handle\<close>.
  A handle already present raises \<^verbatim>\<open>sqlite3.IntegrityError\<close>, which is caught: the result is
  \<^verbatim>\<open>False\<close> and nothing is written.
\<close>

definition create_client ::
  "database \<Rightarrow> nat \<Rightarrow> string \<Rightarrow> string \<Rightarrow> string \<Rightarrow> string \<Rightarrow> json \<Rightarrow> bool \<times> database" where
  "create_client db now telegram_handle email industry location campaign_parameters =
     (if list_ex (\<lambda>c. c_telegram_handle c = telegram_handle) (clients db) then (False, db)
      else (True,
            db\<lparr>clients := clients db @
                 [\<lparr>c_telegram_handle = telegram_handle, c_email = email, c_industry = industry,
                   c_location = location,
                   c_campaign_parameters = json_dumps campaign_parameters,
                   c_created_at = now\<rparr>]\<rparr>))"

text \<open>
  \<^verbatim>\<open>get_client\<close>: the first row with the handle, its \<^verbatim>\<open>campaign_parameters\<close> read with
  \<^verbatim>\<open>json.loads\<close> (no handler here: an error of \<^verbatim>\<open>json.loads\<close> reaches the caller), or \<^verbatim>\<open>None\<close>.
\<close>

definition client_dict :: "text_cell client_row \<Rightarrow> py_error + json client_row" where
  "client_dict c =
     (case json_loads (c_campaign_parameters c) of
        Inl e \<Rightarrow> Inl e
      | Inr v \<Rightarrow>
          Inr \<lparr>c_telegram_handle = c_telegram_handle c, c_email = c_email c,
               c_industry = c_industry c, c_location = c_location c,
               c_campaign_parameters = v, c_created_at = c_created_at c\<rparr>)"

definition get_client :: "database \<Rightarrow> string \<Rightarrow> py_error + json client_row option" where
  "get_client db telegram_handle =
     (case find (\<lambda>c. c_telegram_handle c = telegram_handle) (clients db) of
        None \<Rightarrow> Inr None
      | Some c \<Rightarrow> (case client_dict c of Inl e \<Rightarrow> Inl e | Inr d \<Rightarrow> Inr (Some d)))"

section \<open>Leads\<close>

definition add_lead ::
  "database \<Rightarrow> nat \<Rightarrow> string \<Rightarrow> string \<Rightarrow> string \<Rightarrow> string \<Rightarrow> int \<times> database" where
  "add_lead db now company_name website contact_info details =
     (let rid = next_rowid (seq_lead_bucket db) (map l_id (lead_bucket db));
          row = \<lparr>l_id = rid, l_company_name = Some company_name, l_website = Some website,
                 l_contact_info = Some contact_info, l_details = Some details,
                 l_created_at = now\<rparr>
      in (rid, db\<lparr>lead_bucket := lead_bucket db @ [row], seq_lead_bucket := rid\<rparr>))"

text \<open>
  \<^verbatim>\<open>update_lead\<close>. The dictionary \<^verbatim>\<open>updates\<close> is a map; \<^verbatim>\<open>update_fields\<close> keeps its entries whose
  key is in \<^verbatim>\<open>valid_fields\<close>. With none left the result is \<^verbatim>\<open>False\<close>. Otherwise one
  \<^verbatim>\<open>UPDATE lead_bucket SET k = ?, ... WHERE id = ?\<close> runs: \<^verbatim>\<open>sqlite3\<close> binds the values first, and
  a value it cannot bind raises \<^verbatim>\<open>sqlite3.Error\<close>, caught with the result \<^verbatim>\<open>False\<close> before any
  row is written.
\<close>

definition valid_fields :: "string list" where
  "valid_fields = [''company_name'', ''website'', ''contact_info'', ''details'']"

definition update_fields :: "(string \<rightharpoonup> pyval) \<Rightarrow> (string \<times> pyval) list" where
  "update_fields updates =
     concat (map (\<lambda>k. case updates k of None \<Rightarrow> [] | Some v \<Rightarrow> [(k, v)]) valid_fields)"

definition assign :: "string \<times> string option \<Rightarrow> lead_row \<Rightarrow> lead_row" where
  "assign kv r =
     (if fst kv = ''company_name'' then r\<lparr>l_company_name := snd kv\<rparr>
      else if fst kv = ''website'' then r\<lparr>l_website := snd kv\<rparr>
      else if fst kv = ''contact_info'' then r\<lparr>l_contact_info := snd kv\<rparr>
      else if fst kv = ''details'' then r\<lparr>l_details := snd kv\<rparr>
      else r)"

definition execute_update_lead ::
  "(string \<times> pyval) list \<Rightarrow> int \<Rightarrow> database \<Rightarrow> sqlite_error + database" where
  "execute_update_lead kept lead_id db =
     (case bind_params (map snd kept) of
        Inl e \<Rightarrow> Inl e
      | Inr params \<Rightarrow>
          Inr (db\<lparr>lead_bucket :=
                   map (\<lambda>r. if l_id r = lead_id then fold assign (zip (map fst kept) params) r
                             else r)
                     (lead_bucket db)\<rparr>))"

definition update_lead :: "database \<Rightarrow> int \<Rightarrow> (string \<rightharpoonup> pyval) \<Rightarrow> bool \<times> database" where
  "update_lead db lead_id updates =
     (let kept = update_fields updates
      in if kept = [] then (False, db)
         else (case execute_update_lead kept lead_id db of
                 Inl e \<Rightarrow> (False, db)
               | Inr db' \<Rightarrow> (True, db')))"

section \<open>Solutions\<close>

definition add_solution :: "database \<Rightarrow> nat \<Rightarrow> int \<Rightarrow> string \<Rightarrow> int \<times> database" where
  "add_solution db now lead_id solution_text =
     (let rid = next_rowid (seq_tailored_solutions db) (map s_id (tailored_solutions db));
          row = \<lparr>s_id = rid, s_lead_id = lead_id, s_solution_text = solution_text,
                 s_generated_at = now, s_status = ''pending''\<rparr>
      in (rid, db\<lparr>tailored_solutions := tailored_solutions db @ [row],
                  seq_tailored_solutions := rid\<rparr>))"

definition valid_statuses :: "string list" where
  "valid_statuses = [''pending'', ''sent'', ''reviewed'', ''approved'', ''rejected'']"

definition update_solution_status :: "database \<Rightarrow> int \<Rightarrow> string \<Rightarrow> bool \<times> database" where
  "update_solution_status db solution_id status =
     (if status \<notin> set valid_statuses then (False, db)
      else (True,
            db\<lparr>tailored_solutions :=
                 map (\<lambda>r. if s_id r = solution_id then r\<lparr>s_status := status\<rparr> else r)
                   (tailored_solutions db)\<rparr>))"

section \<open>Outreach\<close>

definition log_outreach :: "database \<Rightarrow> nat \<Rightarrow> int \<Rightarrow> string \<Rightarrow> int \<times> database" where
  "log_outreach db now lead_id message_sent =
     (let rid = next_rowid (seq_outreach_log db) (map o_id (outreach_log db));
          row = \<lparr>o_id = rid, o_lead_id = lead_id, o_message_sent = message_sent,
                 o_sent_at = now, o_response = None, o_updated_at = None\<rparr>
      in (rid, db\<lparr>outreach_log := outreach_log db @ [row], seq_outreach_log := rid\<rparr>))"

text \<open>
  \<^verbatim>\<open>update_outreach_response\<close>: one \<^verbatim>\<open>UPDATE outreach_log SET response = ?, updated_at =
  CURRENT_TIMESTAMP WHERE id = ?\<close>.
\<close>

definition update_outreach_response ::
  "database \<Rightarrow> nat \<Rightarrow> int \<Rightarrow> string \<Rightarrow> bool \<times> database" where
  "update_outreach_response db now outreach_id response =
     (True,
      db\<lparr>outreach_log :=
           map (\<lambda>r. if o_id r = outreach_id
                     then r\<lparr>o_response := Some response, o_updated_at := Some now\<rparr>
                     else r)
             (outreach_log db)\<rparr>)"

text \<open>
  \<^verbatim>\<open>get_pending_responses\<close>: the outreach rows joined with their lead
  (\<^verbatim>\<open>JOIN lead_bucket lb ON ol.lead_id = lb.id\<close>) whose \<^verbatim>\<open>response IS NULL\<close>, newest first by
  \<^verbatim>\<open>sent_at\<close>; each row comes with the lead's company name.
\<close>

definition get_pending_responses :: "database \<Rightarrow> (outreach_row \<times> string option) list" where
  "get_pending_responses db =
     order_by_desc (\<lambda>p. o_sent_at (fst p))
       [(ol, l_company_name lb). ol \<leftarrow> outreach_log db, lb \<leftarrow> lead_bucket db,
          o_lead_id ol = l_id lb, o_response ol = None]"

section \<open>Campaign statistics\<close>

text \<open>
  \<^verbatim>\<open>get_campaign_stats\<close>: \<^verbatim>\<open>COUNT(*)\<close> of the leads; the solutions counted per status
  (\<^verbatim>\<open>GROUP BY status\<close>, a dictionary with the statuses present as keys); \<^verbatim>\<open>COUNT(*)\<close> of the
  outreach rows; and \<^verbatim>\<open>SUM(CASE WHEN response IS NOT NULL THEN 1 ELSE 0 END)\<close>, which SQL
  evaluates to \<^verbatim>\<open>NULL\<close> over no rows.
\<close>

record outreach_stats =
  total_outreach :: nat
  responses :: "nat option"

record campaign_stats =
  total_leads :: nat
  solution_stats :: "string \<rightharpoonup> nat"
  outreach_stats :: outreach_stats

definition sql_sum :: "nat list \<Rightarrow> nat option" where
  "sql_sum xs = (if xs = [] then None else Some (sum_list xs))"

definition get_campaign_stats :: "database \<Rightarrow> campaign_stats" where
  "get_campaign_stats db =
     \<lparr>total_leads = length (lead_bucket db),
      solution_stats =
        (\<lambda>st. let n = length (filter (\<lambda>r. s_status r = st) (tailored_solutions db))
              in if n = 0 then None else Some n),
      outreach_stats =
        \<lparr>total_outreach = length (outreach_log db),
         responses =
           sql_sum (map (\<lambda>r. case o_response r of None \<Rightarrow> 0 | Some x \<Rightarrow> 1) (outreach_log db))\<rparr>\<rparr>"

section \<open>The crawler\<close>

text \<open>
  \<^verbatim>\<open>IndustryCrawler.crawl_industry_data\<close> of \<^verbatim>\<open>src/scraping/industry/crawler.py\<close>. What lies outside
  the repository is an environment: \<open>get_page_content\<close> is the outcome of
  \<^verbatim>\<open>_get_page_content(url)\<close> (the page, or \<^verbatim>\<open>None\<close> when the browser failed); \<open>parse_page\<close> is
  the work of BeautifulSoup and markdownify on a page, giving the title and the markdown, or
  \<^verbatim>\<open>None\<close> when one of them raises (the loop body catches every \<^verbatim>\<open>Exception\<close>); \<open>clock\<close> gives
  the store's \<^verbatim>\<open>CURRENT_TIMESTAMP\<close> and \<^verbatim>\<open>datetime.now().isoformat()\<close> at the moment the URL is
  stored.
\<close>

record crawl_env =
  get_page_content :: "string \<Rightarrow> string option"
  parse_page :: "string \<Rightarrow> (string option \<times> string) option"
  clock :: "string \<Rightarrow> nat \<times> string"

record crawl_result =
  r_id :: int
  r_source :: string
  r_title :: "string option"
  r_content :: string
  r_pain_points :: string
  r_tags :: "string list option"

definition pain_points_todo :: string where
  "pain_points_todo = ''TODO: Extract pain points using LLM''"

text \<open>
  One turn of the loop. \<^verbatim>\<open>if not content: continue\<close> skips a URL whose page is \<^verbatim>\<open>None\<close> or
  empty; an exception while parsing skips it as well. Otherwise the entry is stored and one
  result is appended, its content cut to 200 characters and followed by three dots.
\<close>

definition crawl_url ::
  "crawl_env \<Rightarrow> string list option \<Rightarrow> string \<Rightarrow> crawl_result list \<times> database \<Rightarrow>
   crawl_result list \<times> database" where
  "crawl_url env tags url st =
     (case get_page_content env url of
        None \<Rightarrow> st
      | Some page \<Rightarrow>
          if page = [] then st
          else (case parse_page env page of
                  None \<Rightarrow> st
                | Some (title, content) \<Rightarrow>
                    (let (entry_id, db') =
                           add_industry_data (snd st) (fst (clock env url)) url content
                             pain_points_todo title tags (Some (snd (clock env url)))
                     in (fst st @
                           [\<lparr>r_id = entry_id, r_source = url, r_title = title,
                             r_content = take 200 content @ ''...'',
                             r_pain_points = pain_points_todo, r_tags = tags\<rparr>],
                         db'))))"

definition crawl_industry_data ::
  "crawl_env \<Rightarrow> database \<Rightarrow> string list \<Rightarrow> string list option \<Rightarrow>
   crawl_result list \<times> database" where
  "crawl_industry_data env db urls tags = fold (crawl_url env tags) urls ([], db)"

text \<open>The URLs that reach the store: a non-empty page was fetched and parsed.\<close>

definition crawled :: "crawl_env \<Rightarrow> string \<Rightarrow> bool" where
  "crawled env url =
     (case get_page_content env url of
        None \<Rightarrow> False
      | Some page \<Rightarrow> page \<noteq> [] \<and> parse_page env page \<noteq> None)"

section \<open>One store per client\<close>

text \<open>
  \<^verbatim>\<open>_get_db_path\<close> joins the module's directory, \<^verbatim>\<open>client_dbs\<close> and \<^verbatim>\<open>{client_id}.db\<close> with
  \<^verbatim>\<open>os.path.join\<close> (POSIX): a component that starts with a slash replaces what came before
  it. The file system is a map from paths to database files (case-sensitive names, no links).
  Constructing a \<^verbatim>\<open>DatabaseManager\<close> creates the file with its empty tables when it is absent.
\<close>

definition os_path_join :: "string \<Rightarrow> string \<Rightarrow> string" where
  "os_path_join a b =
     (if b \<noteq> [] \<and> hd b = CHR ''/'' then b
      else if a = [] \<or> last a = CHR ''/'' then a @ b
      else a @ ''/'' @ b)"

definition get_db_path :: "string \<Rightarrow> string \<Rightarrow> string" where
  "get_db_path module_dir client_id =
     os_path_join (os_path_join module_dir ''client_dbs'') (client_id @ ''.db'')"

type_synonym filesystem = "string \<rightharpoonup> database"

definition open_store :: "string \<Rightarrow> filesystem \<Rightarrow> database" where
  "open_store path fs = (case fs path of None \<Rightarrow> empty_database | Some db \<Rightarrow> db)"

text \<open>The writing operations of a \<^verbatim>\<open>DatabaseManager\<close>, with their arguments.\<close>

datatype write_op =
    CreateClient nat string string string string json
  | AddIndustryData nat string string string "string option" "string list option" "string option"
  | AddLead nat string string string string
  | AddSolution nat int string
  | LogOutreach nat int string
  | UpdateLead int "string \<rightharpoonup> pyval"
  | UpdateSolutionStatus int string
  | UpdateOutreachResponse nat int string

fun apply_write :: "write_op \<Rightarrow> database \<Rightarrow> database" where
  "apply_write (CreateClient now h e i l p) db = snd (create_client db now h e i l p)"
| "apply_write (AddIndustryData now s c pp t tags ca) db =
     snd (add_industry_data db now s c pp t tags ca)"
| "apply_write (AddLead now c w ci d) db = snd (add_lead db now c w ci d)"
| "apply_write (AddSolution now lead txt) db = snd (add_solution db now lead txt)"
| "apply_write (LogOutreach now lead msg) db = snd (log_outreach db now lead msg)"
| "apply_write (UpdateLead lead ups) db = snd (update_lead db lead ups)"
| "apply_write (UpdateSolutionStatus sol st) db = snd (update_solution_status db sol st)"
| "apply_write (UpdateOutreachResponse now out resp) db =
     snd (update_outreach_response db now out resp)"

text \<open>
  A write and a read through the store of a client: \<^verbatim>\<open>DatabaseManager(client_id)\<close> followed by
  the operation on the file at the client's path. A read is any function of that file's
  content.
\<close>

definition store_write :: "string \<Rightarrow> string \<Rightarrow> write_op \<Rightarrow> filesystem \<Rightarrow> filesystem" where
  "store_write module_dir client_id w fs =
     (let path = get_db_path module_dir client_id
      in fs(path \<mapsto> apply_write w (open_store path fs)))"

definition store_read :: "string \<Rightarrow> string \<Rightarrow> (database \<Rightarrow> 'r) \<Rightarrow> filesystem \<Rightarrow> 'r" where
  "store_read module_dir client_id q fs = q (open_store (get_db_path module_dir client_id) fs)"

section \<open>Reference definitions\<close>

text \<open>
  A lead's field after an update: the value given for it (\<^verbatim>\<open>None\<close> becomes \<^verbatim>\<open>NULL\<close>), or the old
  value when the update does not name the field.
\<close>

definition field_after :: "(string \<rightharpoonup> pyval) \<Rightarrow> string \<Rightarrow> string option \<Rightarrow> string option" where
  "field_after updates k old =
     (case updates k of
        None \<Rightarrow> old
      | Some v \<Rightarrow> (case v of PyNone \<Rightarrow> None | PyStr s \<Rightarrow> Some s | PyOther \<Rightarrow> old))"

definition lead_after :: "(string \<rightharpoonup> pyval) \<Rightarrow> lead_row \<Rightarrow> lead_row" where
  "lead_after updates r =
     r\<lparr>l_company_name := field_after updates ''company_name'' (l_company_name r),
       l_website := field_after updates ''website'' (l_website r),
       l_contact_info := field_after updates ''contact_info'' (l_contact_info r),
       l_details := field_after updates ''details'' (l_details r)\<rparr>"

text \<open>The content of a result: the first 200 characters of the entry's content and three dots.\<close>

definition preview :: "string \<Rightarrow> string" where
  "preview content = take 200 content @ ''...''"

section \<open>Example stores\<close>


definition ex_leads :: database where
  "ex_leads =
     snd (add_lead
            (snd (add_lead empty_database 1 ''Tech Corp'' ''https://techcorp.com''
                    ''contact@techcorp.com'' ''Growing tech company''))
            2 ''Cloud Solutions Inc'' ''https://cloudsolutions.com'' ''info@cloudsolutions.com''
            ''Cloud security provider'')"

definition ex_outreach :: database where
  "ex_outreach = snd (log_outreach (snd (log_outreach ex_leads 3 1 ''Initial contact 1'')) 4 2 ''Initial contact 2'')"

definition ex_campaign :: database where
  "ex_campaign =
     snd (update_outreach_response
       (snd (log_outreach
         (snd (update_solution_status
           (snd (add_solution
             (snd (add_solution
               (snd (add_lead ex_leads 3 ''Third'' ''w'' ''c'' ''d''))
               4 1 ''Solution for lead 1''))
             5 2 ''Solution for lead 2''))
           2 ''approved''))
         6 1 ''Initial contact''))
       7 1 ''Interested in learning more'')"

text \<open>
  An environment for the crawler in which the second of three URLs cannot be fetched.
\<close>

definition ex_env :: crawl_env where
  "ex_env =
     \<lparr>get_page_content = (\<lambda>url. if url = ''https://two.example'' then None
                                 else Some ''<html><title>T</title><main>Sales</main></html>''),
      parse_page = (\<lambda>page. Some (Some ''T'', ''Sales'')),
      clock = (\<lambda>url. (1, ''2025-01-01T00:00:00''))\<rparr>"

section \<open>Facts about the SQL fragments\<close>

lemmas eval_defs = add_industry_data_def empty_database_def next_rowid_def
  truthy_def given_def json_dumps_def json_of_tags_def get_industry_data_def select_industry_def
  json_array_contains_def sql_function_call_def sql_limit_def order_by_desc_def industry_dict_def
  decode_tags_def max_expr_depth_def or_chain_depth_def search_industry_data_def
  search_condition_def keyword_condition_def ascii_lower_def

lemmas entity_defs = empty_database_def next_rowid_def create_client_def get_client_def
  client_dict_def json_dumps_def add_lead_def add_solution_def log_outreach_def
  update_lead_def update_fields_def valid_fields_def execute_update_lead_def bind_param_def
  assign_def update_solution_status_def valid_statuses_def update_outreach_response_def
  get_pending_responses_def order_by_desc_def get_campaign_stats_def sql_sum_def

section \<open>Properties of the tag predicate and of reading\<close>

lemma set_order_by_desc: "set (order_by_desc key rows) = set rows"
  by (simp add: order_by_desc_def)

lemma sorted_order_by_desc: "sorted_wrt (\<ge>) (map key (order_by_desc key rows))"
proof -
  have "sorted (map key (sort_key key (rev rows)))" by simp
  then show ?thesis
    by (simp add: order_by_desc_def rev_map[symmetric] sorted_wrt_rev del: sorted_sort_key)
qed

lemma map_sql_limit: "map f (sql_limit n xs) = sql_limit n (map f xs)"
  by (simp add: sql_limit_def take_map)

lemma sorted_wrt_sql_limit: "sorted_wrt P xs \<Longrightarrow> sorted_wrt P (sql_limit n xs)"
  by (simp add: sql_limit_def sorted_wrt_take)

lemma set_sql_limit: "set (sql_limit n xs) \<subseteq> set xs"
  by (auto simp: sql_limit_def dest: in_set_takeD)

lemma sql_where_filter:
  "sql_where cond rows = Inr ys \<Longrightarrow> ys = filter (\<lambda>r. cond r = Inr True) rows"
proof (induction rows arbitrary: ys)
  case Nil
  then show ?case by simp
next
  case (Cons r rs)
  then show ?case by (auto split: sum.splits if_splits)
qed

lemma sql_where_total:
  "(\<And>r. r \<in> set rows \<Longrightarrow> cond r = Inr (P r)) \<Longrightarrow> sql_where cond rows = Inr (filter P rows)"
  by (induction rows) simp_all

lemma sql_where_error:
  "r \<in> set rows \<Longrightarrow> cond r = Inl e \<Longrightarrow> \<exists>e'. sql_where cond rows = Inl e'"
  by (induction rows) (auto split: sum.splits)

lemma in_stored_tags_array:
  "t \<in> set (concat (map (\<lambda>j. case j of JString t \<Rightarrow> [t] | _ \<Rightarrow> []) xs)) \<longleftrightarrow> JString t \<in> set xs"
  by (induction xs) (auto split: json.splits)

lemma contains_clean:
  assumes "loads_cleanly cell"
  shows "json_array_contains cell t = Inr (t \<in> set (stored_tags cell))"
proof (cases cell)
  case None
  then show ?thesis by (simp add: json_array_contains_def stored_tags_def)
next
  case (Some c)
  show ?thesis
  proof (cases c)
    case (JsonText j)
    then show ?thesis using Some
      by (cases j) (simp_all add: json_array_contains_def stored_tags_def in_stored_tags_array)
  qed (use assms Some in \<open>simp_all add: json_array_contains_def stored_tags_def loads_cleanly_def\<close>)
qed

lemma tag_conditions_clean:
  "loads_cleanly (i_tags r) \<Longrightarrow>
   tag_conditions ts r = Inr (set (stored_tags (i_tags r)) \<inter> set ts \<noteq> {})"
  by (induction ts) (auto simp: contains_clean sql_function_call_def)

lemma select_industry_clean:
  assumes "clean_store db"
  shows "select_industry db tags = Inr (matching_entries db tags)"
proof (cases "truthy tags")
  case True
  have "sql_where (tag_conditions (given tags)) (industry_data db) =
      Inr (filter (\<lambda>e. set (stored_tags (i_tags e)) \<inter> set (given tags) \<noteq> {}) (industry_data db))"
    using assms by (intro sql_where_total tag_conditions_clean) (simp add: clean_store_def list_all_iff)
  then show ?thesis using True by (simp add: select_industry_def matching_entries_def)
next
  case False
  then show ?thesis by (simp add: select_industry_def matching_entries_def)
qed

lemma decode_tags_Inr:
  "decode_tags cell = Inr x \<longleftrightarrow> loads_cleanly cell \<and> x = read_tags cell"
proof (cases cell)
  case None
  then show ?thesis by (auto simp: decode_tags_def loads_cleanly_def read_tags_def)
next
  case (Some c)
  then show ?thesis
    by (cases c) (auto simp: decode_tags_def loads_cleanly_def read_tags_def)
qed

lemma industry_dict_Inr:
  "industry_dict r = Inr d \<longleftrightarrow> loads_cleanly (i_tags r) \<and> d = entry_view r"
proof (cases "decode_tags (i_tags r)")
  case (Inl e)
  then have "\<not> loads_cleanly (i_tags r)"
    using decode_tags_Inr[of "i_tags r" "read_tags (i_tags r)"] by auto
  then show ?thesis using Inl by (simp add: industry_dict_def)
next
  case (Inr x)
  then have "loads_cleanly (i_tags r)" "x = read_tags (i_tags r)"
    using decode_tags_Inr[of "i_tags r" x] by auto
  then show ?thesis using Inr by (auto simp: industry_dict_def entry_view_def)
qed

lemma result_dicts_Inr:
  "result_dicts rows = Inr ds \<longleftrightarrow>
     list_all (\<lambda>r. loads_cleanly (i_tags r)) rows \<and> ds = map entry_view rows"
proof (induction rows arbitrary: ds)
  case Nil
  then show ?case by auto
next
  case (Cons r rs)
  show ?case
  proof (cases "industry_dict r")
    case (Inl e)
    then have "\<not> loads_cleanly (i_tags r)"
      using industry_dict_Inr[of r "entry_view r"] by auto
    then show ?thesis using Inl by simp
  next
    case (Inr d)
    then have d: "loads_cleanly (i_tags r)" "d = entry_view r"
      using industry_dict_Inr[of r d] by auto
    show ?thesis
    proof (cases "result_dicts rs")
      case (Inl e)
      then have "\<not> list_all (\<lambda>r. loads_cleanly (i_tags r)) rs"
        using Cons[of "map entry_view rs"] by auto
      then show ?thesis using Inl Inr by simp
    next
      case rest: (Inr es)
      then show ?thesis using Inr d Cons[of es] by auto
    qed
  qed
qed

lemma entry_view_created_at: "map i_created_at (map entry_view rows) = map i_created_at rows"
  by (simp add: entry_view_def comp_def)

lemma entry_view_id: "i_id (entry_view r) = i_id r"
  by (simp add: entry_view_def)

lemma entry_view_tags: "i_tags (entry_view r) = read_tags (i_tags r)"
  by (simp add: entry_view_def)

lemma set_select_industry:
  "select_industry db tags = Inr rows \<Longrightarrow> set rows \<subseteq> set (industry_data db)"
  by (auto simp: select_industry_def dest!: sql_where_filter split: if_splits)

lemma get_industry_data_rows:
  assumes "get_industry_data db limit tags = Inr ds" and "d \<in> set ds"
  shows "\<exists>r. r \<in> set (industry_data db) \<and> d = entry_view r"
proof -
  obtain rows where rows: "select_industry db tags = Inr rows"
    and ds: "result_dicts (sql_limit limit (order_by_desc i_created_at rows)) = Inr ds"
    using assms by (auto simp: get_industry_data_def split: if_splits sum.splits)
  have "ds = map entry_view (sql_limit limit (order_by_desc i_created_at rows))"
    using ds by (simp add: result_dicts_Inr)
  then obtain r where "r \<in> set (sql_limit limit (order_by_desc i_created_at rows))" "d = entry_view r"
    using assms(2) by auto
  then show ?thesis
    using set_sql_limit[of limit "order_by_desc i_created_at rows"] set_select_industry[OF rows]
    by (auto simp: set_order_by_desc)
qed

lemma search_industry_data_rows:
  assumes "search_industry_data db kw tags = Inr ds" and "d \<in> set ds"
  shows "\<exists>r. r \<in> set (industry_data db) \<and> d = entry_view r"
proof -
  obtain rows where rows: "sql_where (search_condition kw tags) (industry_data db) = Inr rows"
    and ds: "result_dicts (order_by_desc i_created_at rows) = Inr ds"
    using assms by (auto simp: search_industry_data_def split: if_splits sum.splits)
  have "ds = map entry_view (order_by_desc i_created_at rows)"
    using ds by (simp add: result_dicts_Inr)
  then obtain r where "r \<in> set rows" "d = entry_view r"
    using assms(2) by (auto simp: set_order_by_desc)
  then show ?thesis using sql_where_filter[OF rows] by auto
qed

lemma get_industry_data_sorted:
  assumes "get_industry_data db limit tags = Inr ds"
  shows "sorted_wrt (\<ge>) (map i_created_at ds)"
proof (cases "ds = []")
  case True
  then show ?thesis by simp
next
  case False
  then obtain rows where
    ds: "result_dicts (sql_limit limit (order_by_desc i_created_at rows)) = Inr ds"
    using assms by (auto simp: get_industry_data_def split: if_splits sum.splits)
  then have "map i_created_at ds =
      sql_limit limit (map i_created_at (order_by_desc i_created_at rows))"
    by (simp only: result_dicts_Inr entry_view_created_at map_sql_limit)
  then show ?thesis
    by (simp only: sorted_wrt_sql_limit sorted_order_by_desc)
qed

lemma clean_rows_subset:
  "clean_store db \<Longrightarrow> set rows \<subseteq> set (industry_data db) \<Longrightarrow>
   list_all (\<lambda>r. loads_cleanly (i_tags r)) rows"
  by (auto simp: clean_store_def list_all_iff)

lemma set_matching_entries: "set (matching_entries db tags) \<subseteq> set (industry_data db)"
  by (auto simp: matching_entries_def)

lemma get_industry_data_clean:
  assumes "clean_store db" and "length (given tags) < 1000"
  shows "get_industry_data db limit tags =
     Inr (map entry_view (sql_limit limit (order_by_desc i_created_at (matching_entries db tags))))"
proof (cases "limit = 0")
  case True
  then show ?thesis
    using assms(2)
    by (simp add: get_industry_data_def max_expr_depth_def or_chain_depth_def sql_limit_def)
next
  case False
  have "list_all (\<lambda>r. loads_cleanly (i_tags r))
      (sql_limit limit (order_by_desc i_created_at (matching_entries db tags)))"
    using set_sql_limit[of limit "order_by_desc i_created_at (matching_entries db tags)"]
      set_matching_entries[of db tags]
    by (intro clean_rows_subset[OF assms(1)]) (auto simp: set_order_by_desc)
  then have "result_dicts (sql_limit limit (order_by_desc i_created_at (matching_entries db tags))) =
      Inr (map entry_view (sql_limit limit (order_by_desc i_created_at (matching_entries db tags))))"
    by (simp add: result_dicts_Inr)
  then show ?thesis
    using False assms(2) select_industry_clean[OF assms(1), of tags]
    by (simp add: get_industry_data_def max_expr_depth_def or_chain_depth_def)
qed




lemma le_fold_max: "(s::int) \<le> fold max ids s"
  by (induction ids arbitrary: s) (auto intro: order_trans[OF max.cobounded2])

lemma member_le_fold_max: "x \<in> set ids \<Longrightarrow> (x::int) \<le> fold max ids s"
proof (induction ids arbitrary: s)
  case Nil
  then show ?case by simp
next
  case (Cons a ids)
  show ?case
  proof (cases "x = a")
    case True
    have "a \<le> max a s" by simp
    also have "\<dots> \<le> fold max ids (max a s)" by (rule le_fold_max)
    finally show ?thesis using True by simp
  next
    case False
    then show ?thesis using Cons by simp
  qed
qed

lemma next_rowid_fresh: "next_rowid s ids \<notin> set ids"
  using member_le_fold_max[of "next_rowid s ids" ids s] by (auto simp: next_rowid_def)

lemma add_industry_data_rows:
  assumes "add_industry_data db now source content pain title tags crawled_at = (rid, db')"
  shows "industry_data db' = industry_data db @
           [\<lparr>i_id = rid, i_source = source, i_title = title, i_content = content,
             i_pain_points = pain,
             i_tags = (if truthy tags then Some (json_dumps (json_of_tags (given tags))) else None),
             i_crawled_at = crawled_at, i_created_at = now\<rparr>]"
    and "rid \<notin> i_id ` set (industry_data db)"
    and "rid = next_rowid (seq_industry_data db) (map i_id (industry_data db))"
  using assms next_rowid_fresh[of "seq_industry_data db" "map i_id (industry_data db)"]
  by (auto simp: add_industry_data_def Let_def)

lemma contains_dumped_tags:
  "json_array_contains (Some (json_dumps (json_of_tags ts))) t = Inr (t \<in> set ts)"
  by (auto simp: json_array_contains_def json_dumps_def json_of_tags_def)

lemma read_dumped_tags: "read_tags (Some (json_dumps (json_of_tags ts))) = TagsValue (json_of_tags ts)"
  by (simp add: read_tags_def json_dumps_def)

lemma dumped_loads_cleanly: "loads_cleanly (Some (json_dumps j))"
  by (simp add: loads_cleanly_def json_dumps_def)

lemma tag_conditions_Inr_clean:
  "tag_conditions ts r = Inr b \<Longrightarrow> ts \<noteq> [] \<Longrightarrow> loads_cleanly (i_tags r)"
  by (cases ts; cases "i_tags r")
    (auto simp: json_array_contains_def sql_function_call_def loads_cleanly_def
      split: option.splits text_cell.splits if_splits sum.splits)

lemma sql_where_Inr_all: "sql_where cond rows = Inr ys \<Longrightarrow> r \<in> set rows \<Longrightarrow> \<exists>b. cond r = Inr b"
  by (induction rows arbitrary: ys) (auto split: sum.splits if_splits)

lemma select_industry_Inr:
  assumes "select_industry db tags = Inr rows"
  shows "rows = matching_entries db tags"
proof (cases "truthy tags")
  case False
  then show ?thesis using assms by (simp add: select_industry_def matching_entries_def)
next
  case True
  then have ne: "given tags \<noteq> []" by (auto simp: truthy_def given_def split: option.splits)
  have w: "sql_where (tag_conditions (given tags)) (industry_data db) = Inr rows"
    using assms True by (simp add: select_industry_def)
  have "loads_cleanly (i_tags r)" if "r \<in> set (industry_data db)" for r
    using sql_where_Inr_all[OF w that] tag_conditions_Inr_clean[OF _ ne] by blast
  then have "clean_store db" by (simp add: clean_store_def list_all_iff)
  then show ?thesis using assms select_industry_clean[of db tags] by simp
qed

lemma get_industry_data_Inr:
  assumes "get_industry_data db limit tags = Inr ds"
  shows "ds = map entry_view (sql_limit limit (order_by_desc i_created_at (matching_entries db tags)))"
proof (cases "limit = 0")
  case True
  then show ?thesis
    using assms by (auto simp: get_industry_data_def sql_limit_def split: if_splits)
next
  case False
  then obtain rows where rows: "select_industry db tags = Inr rows"
    and ds: "result_dicts (sql_limit limit (order_by_desc i_created_at rows)) = Inr ds"
    using assms by (auto simp: get_industry_data_def split: if_splits sum.splits)
  have "rows = matching_entries db tags" using rows by (rule select_industry_Inr)
  then show ?thesis using ds by (simp add: result_dicts_Inr)
qed




text \<open>
  Claim C2, amended. With 1000 requested tags or more \<^verbatim>\<open>get_industry_data\<close> fails: SQLite
  refuses the chain of \<^verbatim>\<open>OR\<close>s. In a store whose tag cells \<^verbatim>\<open>json.loads\<close> reads or rejects with
  a \<^verbatim>\<open>JSONDecodeError\<close>, with fewer than 1000 requested tags and a limit that is not negative,
  it is the query of the specification: with a non-empty list of requested tags it returns
  the entries whose stored tags meet the requested ones, and with no tag requested all
  entries; newest first by \<^verbatim>\<open>created_at\<close>; at most \<open>limit\<close> of them. A negative limit puts no
  cap on the result. In any store, whatever the call returns is newest first and, for a limit
  that is not negative, is the query of the specification, and the rows the \<^verbatim>\<open>WHERE\<close> clause
  selects are those whose stored tags meet the requested ones.
\<close>

theorem tag_filtered_retrieval:
  "(truthy tags \<and> 1000 \<le> length (given tags) \<longrightarrow>
      get_industry_data db limit tags = Inl OperationalError) \<and>
   (clean_store db \<and> length (given tags) < 1000 \<longrightarrow>
      select_industry db tags = Inr (matching_entries db tags) \<and>
      (0 \<le> limit \<longrightarrow>
         get_industry_data db limit tags = Inr (spec_query db limit tags) \<and>
         int (length (spec_query db limit tags)) \<le> limit) \<and>
      (limit < 0 \<longrightarrow>
         get_industry_data db limit tags =
           Inr (map entry_view (order_by_desc i_created_at (matching_entries db tags))))) \<and>
   (\<forall>rows. get_industry_data db limit tags = Inr rows \<longrightarrow>
      sorted_wrt (\<ge>) (map i_created_at rows) \<and>
      (0 \<le> limit \<longrightarrow> rows = spec_query db limit tags)) \<and>
   (\<forall>rows. select_industry db tags = Inr rows \<longrightarrow>
      (e \<in> set rows \<longleftrightarrow>
         e \<in> set (industry_data db) \<and>
         (truthy tags \<longrightarrow> set (stored_tags (i_tags e)) \<inter> set (given tags) \<noteq> {})))"
proof -
  have a: "get_industry_data db limit tags = Inl OperationalError"
    if "truthy tags" "1000 \<le> length (given tags)"
    using that by (simp add: get_industry_data_def max_expr_depth_def or_chain_depth_def)
  have b: "select_industry db tags = Inr (matching_entries db tags)" if "clean_store db"
    using that by (rule select_industry_clean)
  have c: "get_industry_data db limit tags = Inr (spec_query db limit tags) \<and>
         int (length (spec_query db limit tags)) \<le> limit"
    if "clean_store db" "length (given tags) < 1000" "0 \<le> limit"
    using that get_industry_data_clean[of db tags limit]
    by (simp add: spec_query_def sql_limit_def)
  have d: "get_industry_data db limit tags =
           Inr (map entry_view (order_by_desc i_created_at (matching_entries db tags)))"
    if "clean_store db" "length (given tags) < 1000" "limit < 0"
    using that get_industry_data_clean[of db tags limit] by (simp add: sql_limit_def)
  have e: "sorted_wrt (\<ge>) (map i_created_at rows)"
    if "get_industry_data db limit tags = Inr rows" for rows
    using that by (rule get_industry_data_sorted)
  have f: "rows = spec_query db limit tags"
    if "get_industry_data db limit tags = Inr rows" "0 \<le> limit" for rows
    using get_industry_data_Inr[OF that(1)] that(2) by (simp add: spec_query_def sql_limit_def)
  have g: "e \<in> set rows \<longleftrightarrow>
      e \<in> set (industry_data db) \<and>
      (truthy tags \<longrightarrow> set (stored_tags (i_tags e)) \<inter> set (given tags) \<noteq> {})"
    if "select_industry db tags = Inr rows" for rows
    using select_industry_Inr[OF that] by (auto simp: matching_entries_def)
  show ?thesis using a b c d e f g by blast
qed

theorem tag_filtered_retrieval_witness:
  "clean_store ex_store \<and> length (given (Some [''sales_statistics''])) < 1000 \<and> (0::int) \<le> 10 \<and>
   get_industry_data ex_store 10 (Some [''sales_statistics'']) =
     Inr (spec_query ex_store 10 (Some [''sales_statistics''])) \<and>
   map i_source (spec_query ex_store 10 (Some [''sales_statistics''])) =
     [''https://a.example/stats''] \<and>
   map_sum id (map i_source) (get_industry_data ex_store 10 None) =
     Inr [''https://b.example/trends'', ''https://a.example/stats''] \<and>
   map_sum id (map i_source)
     (get_industry_data ex_store 1 (Some [''sales_statistics'', ''sales_trends''])) =
     Inr [''https://b.example/trends'']"
  using tag_filtered_retrieval[where limit = 10 and db = ex_store
      and tags = "Some [''sales_statistics'']"]
  by (simp add: eval_defs ex_store_def stored_tags_def spec_query_def matching_entries_def
      entry_view_def read_tags_def clean_store_def loads_cleanly_def)

text \<open>
  The claim as stated fails. With the limit \<open>-1\<close> both entries of the store come back, which is
  not the query capped at the limit; with 1000 requested tags the call fails; and a stored
  cell on which \<^verbatim>\<open>json.loads\<close> raises an error other than \<^verbatim>\<open>JSONDecodeError\<close> makes the tag
  filter fail.
\<close>

theorem tag_query_counterexample:
  "map_sum id (map i_source)
     (get_industry_data ex_store (- 1) (Some [''sales_statistics'', ''sales_trends''])) =
     Inr [''https://b.example/trends'', ''https://a.example/stats''] \<and>
   get_industry_data ex_store (- 1) (Some [''sales_statistics'', ''sales_trends'']) \<noteq>
     Inr (spec_query ex_store (- 1) (Some [''sales_statistics'', ''sales_trends''])) \<and>
   spec_query ex_store (- 1) (Some [''sales_statistics'', ''sales_trends'']) = [] \<and>
   get_industry_data ex_store 10 (Some (replicate 1000 ''sales_statistics'')) =
     Inl OperationalError \<and>
   get_industry_data (empty_database\<lparr>industry_data := [ex_deep_row]\<rparr>) 10 (Some [''sales'']) =
     Inl OperationalError"
  by (simp add: eval_defs ex_store_def stored_tags_def spec_query_def matching_entries_def
      entry_view_def read_tags_def ex_deep_row_def)

text \<open>
  Claim C8, amended. An entry added with a non-empty tag list is read back, by every query and
  search that returns it, with exactly the list it was given: the order and the duplicates
  are kept. The result loop reads the stored row without an error, and a query without a tag
  filter returns the entry when the cells that were already stored can be read. A candidate
  tag matches the stored cell if and only if it occurs in the list, so matching does not
  depend on order or repetition. (An empty list is stored as \<^verbatim>\<open>NULL\<close>.)
\<close>

theorem stored_tags_read_back:
  assumes "ts \<noteq> []"
    and "add_industry_data db now source content pain title (Some ts) crawled_at = (rid, db')"
  shows "(\<forall>rows. get_industry_data db' limit T = Inr rows \<or> search_industry_data db' kw T = Inr rows \<longrightarrow>
            (\<forall>d \<in> set rows. i_id d = rid \<longrightarrow> i_tags d = TagsValue (json_of_tags ts))) \<and>
         (\<exists>r \<in> set (industry_data db'). \<exists>d. industry_dict r = Inr d \<and> i_id d = rid \<and>
            i_tags d = TagsValue (json_of_tags ts)) \<and>
         (clean_store db \<longrightarrow>
            (\<exists>rows. get_industry_data db' (- 1) None = Inr rows \<and> (\<exists>d \<in> set rows. i_id d = rid))) \<and>
         (\<forall>r \<in> set (industry_data db'). i_id r = rid \<longrightarrow>
            json_array_contains (i_tags r) t = Inr (t \<in> set ts))"
proof -
  let ?new = "\<lparr>i_id = rid, i_source = source, i_title = title, i_content = content,
             i_pain_points = pain, i_tags = Some (json_dumps (json_of_tags ts)),
             i_crawled_at = crawled_at, i_created_at = now\<rparr>"
  have rows: "industry_data db' = industry_data db @ [?new]"
    using add_industry_data_rows(1)[OF assms(2)] assms(1) by (simp add: truthy_def given_def)
  have fresh: "rid \<notin> i_id ` set (industry_data db)"
    by (rule add_industry_data_rows(2)[OF assms(2)])
  have only: "r = ?new" if "r \<in> set (industry_data db')" "i_id r = rid" for r
    using that rows fresh by auto
  have new: "?new \<in> set (industry_data db')" using rows by simp
  have a: "i_tags d = TagsValue (json_of_tags ts)"
    if d: "get_industry_data db' limit T = Inr ds \<or> search_industry_data db' kw T = Inr ds"
      and mem: "d \<in> set ds" and id: "i_id d = rid" for d ds
  proof -
    obtain r where r: "r \<in> set (industry_data db')" "d = entry_view r"
      using d mem get_industry_data_rows search_industry_data_rows by blast
    then have "r = ?new" using only id by (simp add: entry_view_id)
    then show ?thesis using r(2) by (simp add: entry_view_tags read_dumped_tags)
  qed
  have b: "\<exists>r \<in> set (industry_data db'). \<exists>d. industry_dict r = Inr d \<and> i_id d = rid \<and>
            i_tags d = TagsValue (json_of_tags ts)"
  proof (rule bexI[OF _ new], intro exI conjI)
    show "industry_dict ?new = Inr (entry_view ?new)"
      by (simp add: industry_dict_Inr dumped_loads_cleanly)
    show "i_id (entry_view ?new) = rid" by (simp add: entry_view_id)
    show "i_tags (entry_view ?new) = TagsValue (json_of_tags ts)"
      by (simp add: entry_view_tags read_dumped_tags)
  qed
  have c: "\<exists>rows. get_industry_data db' (- 1) None = Inr rows \<and> (\<exists>d \<in> set rows. i_id d = rid)"
    if "clean_store db"
  proof -
    have "clean_store db'"
      using that rows by (simp add: clean_store_def dumped_loads_cleanly)
    then have "get_industry_data db' (- 1) None =
        Inr (map entry_view (order_by_desc i_created_at (industry_data db')))"
      using get_industry_data_clean[of db' None "- 1"]
      by (simp add: given_def sql_limit_def matching_entries_def truthy_def)
    moreover have "entry_view ?new \<in> set (map entry_view (order_by_desc i_created_at (industry_data db')))"
      using new by (simp only: set_map set_order_by_desc imageI)
    moreover have "i_id (entry_view ?new) = rid" by (simp add: entry_view_id)
    ultimately show ?thesis by blast
  qed
  have e: "json_array_contains (i_tags r) t = Inr (t \<in> set ts)"
    if "r \<in> set (industry_data db')" "i_id r = rid" for r
    using only[OF that] by (simp add: contains_dumped_tags)
  show ?thesis using a b c e by blast
qed

theorem stored_tags_read_back_witness:
  "[''b'', ''a'', ''b''] \<noteq> [] \<and>
   add_industry_data empty_database 7 ''u'' ''c'' ''p'' None (Some [''b'', ''a'', ''b'']) None =
     (1, snd (add_industry_data empty_database 7 ''u'' ''c'' ''p'' None (Some [''b'', ''a'', ''b'']) None)) \<and>
   clean_store empty_database \<and>
   map_sum id (map i_tags) (get_industry_data
      (snd (add_industry_data empty_database 7 ''u'' ''c'' ''p'' None (Some [''b'', ''a'', ''b'']) None))
      5 (Some [''a''])) = Inr [TagsValue (JArray [JString ''b'', JString ''a'', JString ''b''])]"
  using stored_tags_read_back[where ts = "[''b'', ''a'', ''b'']" and db = empty_database and now = 7
      and source = "''u''" and content = "''c''" and pain = "''p''" and title = None
      and crawled_at = None and rid = 1
      and db' = "snd (add_industry_data empty_database 7 ''u'' ''c'' ''p'' None (Some [''b'', ''a'', ''b'']) None)"
      and limit = 5 and T = "Some [''a'']" and kw = "''c''" and t = "''a''"]
  by (simp add: eval_defs clean_store_def)

text \<open>
  The claim as stated fails: tags given twice are stored and returned twice.
\<close>

theorem stored_tags_duplicates_counterexample:
  "map_sum id (map i_tags) (get_industry_data
      (snd (add_industry_data empty_database 7 ''u'' ''c'' ''p'' None (Some [''a'', ''a'']) None))
      10 None) = Inr [TagsValue (JArray [JString ''a'', JString ''a''])] \<and>
   JArray [JString ''a'', JString ''a''] \<noteq> JArray [JString ''a'']"
  by (simp add: eval_defs)

text \<open>
  The entry is returned only if the rows around it can be read: next to a row on whose cell
  \<^verbatim>\<open>json.loads\<close> raises a \<^verbatim>\<open>RecursionError\<close>, the query without a tag filter fails.
\<close>

lemma read_back_beside_unreadable_row:
  "map_sum id (map i_tags) (get_industry_data
      (snd (add_industry_data (empty_database\<lparr>industry_data := [ex_deep_row]\<rparr>) 7 ''u'' ''c'' ''p''
              None (Some [''a'']) None))
      10 None) = Inl RecursionError"
  by (simp add: eval_defs ex_deep_row_def)

section \<open>Clients are created once\<close>










section \<open>Updating a lead\<close>

lemma update_lead_char:
  "update_lead db lead_id updates =
     (if list_all (\<lambda>k. updates k = None) valid_fields then (False, db)
      else if list_ex (\<lambda>k. updates k = Some PyOther) valid_fields then (False, db)
      else (True, db\<lparr>lead_bucket :=
              map (\<lambda>r. if l_id r = lead_id then lead_after updates r else r) (lead_bucket db)\<rparr>))"
proof (cases "updates ''company_name''"; cases "updates ''website''";
    cases "updates ''contact_info''"; cases "updates ''details''")
qed (simp_all add: update_lead_def update_fields_def valid_fields_def execute_update_lead_def
      bind_param_def assign_def field_after_def lead_after_def Let_def
      split: pyval.splits)

lemma update_fields_restrict: "update_fields (updates |` set valid_fields) = update_fields updates"
  by (simp add: update_fields_def valid_fields_def)

text \<open>
  Claim C5, amended. \<^verbatim>\<open>update_lead\<close> looks only at the entries of the update whose key is one of
  \<^verbatim>\<open>company_name\<close>, \<^verbatim>\<open>website\<close>, \<^verbatim>\<open>contact_info\<close>, \<^verbatim>\<open>details\<close>. With no such entry it returns
  \<^verbatim>\<open>False\<close> and the store is unchanged; so it does when one of these entries holds a value that
  cannot be bound to the statement. Otherwise it returns \<^verbatim>\<open>True\<close>, every lead with the given
  id gets exactly the named fields set to the given values, its id and creation time and its
  other fields stay, and every other lead and every other table is unchanged.
\<close>

theorem update_lead_allow_list_frame:
  "update_lead db lead_id updates = update_lead db lead_id (updates |` set valid_fields) \<and>
   (list_all (\<lambda>k. updates k = None) valid_fields \<longrightarrow>
      update_lead db lead_id updates = (False, db)) \<and>
   (list_ex (\<lambda>k. updates k = Some PyOther) valid_fields \<longrightarrow>
      update_lead db lead_id updates = (False, db)) \<and>
   (\<not> list_all (\<lambda>k. updates k = None) valid_fields \<and>
    \<not> list_ex (\<lambda>k. updates k = Some PyOther) valid_fields \<longrightarrow>
      update_lead db lead_id updates =
        (True, db\<lparr>lead_bucket :=
                  map (\<lambda>r. if l_id r = lead_id then lead_after updates r else r)
                    (lead_bucket db)\<rparr>)) \<and>
   l_id (lead_after updates r) = l_id r \<and> l_created_at (lead_after updates r) = l_created_at r"
proof -
  have "update_lead db lead_id updates = update_lead db lead_id (updates |` set valid_fields)"
    by (simp add: update_lead_def update_fields_restrict)
  moreover have "list_ex (\<lambda>k. updates k = Some PyOther) valid_fields \<Longrightarrow>
      \<not> list_all (\<lambda>k. updates k = None) valid_fields"
    by (auto simp: list_ex_iff list_all_iff)
  ultimately show ?thesis
    using update_lead_char[of db lead_id updates] by (auto simp: lead_after_def)
qed

theorem update_lead_allow_list_frame_witness:
  "update_lead ex_leads 1 [''bogus'' \<mapsto> PyOther] = (False, ex_leads) \<and>
   update_lead ex_leads 1 [''details'' \<mapsto> PyStr ''x'', ''bogus'' \<mapsto> PyOther] =
     (True, ex_leads\<lparr>lead_bucket :=
        [\<lparr>l_id = 1, l_company_name = Some ''Tech Corp'', l_website = Some ''https://techcorp.com'',
          l_contact_info = Some ''contact@techcorp.com'', l_details = Some ''x'',
          l_created_at = 1\<rparr>,
         \<lparr>l_id = 2, l_company_name = Some ''Cloud Solutions Inc'',
          l_website = Some ''https://cloudsolutions.com'',
          l_contact_info = Some ''info@cloudsolutions.com'',
          l_details = Some ''Cloud security provider'', l_created_at = 2\<rparr>]\<rparr>)"
  using update_lead_allow_list_frame[where db = ex_leads and lead_id = 1
      and updates = "[''details'' \<mapsto> PyStr ''x'', ''bogus'' \<mapsto> PyOther]"]
  by (simp add: entity_defs ex_leads_def lead_after_def field_after_def)

text \<open>
  The claim as stated fails: an update that names a recognised field can still return \<^verbatim>\<open>False\<close>.
\<close>

theorem update_lead_unbindable_counterexample:
  "[''details'' \<mapsto> PyOther] ''details'' \<noteq> None \<and>
   update_lead ex_leads 1 [''details'' \<mapsto> PyOther] = (False, ex_leads)"
  by (simp add: entity_defs ex_leads_def)

section \<open>Recording a response\<close>

lemma pending_rows:
  "p \<in> set (get_pending_responses db) \<longleftrightarrow>
     fst p \<in> set (outreach_log db) \<and> o_response (fst p) = None \<and>
     (\<exists>lb. lb \<in> set (lead_bucket db) \<and> l_id lb = o_lead_id (fst p) \<and> snd p = l_company_name lb)"
  by (cases p) (auto simp: get_pending_responses_def set_order_by_desc)

text \<open>
  Claim C6. For an outreach row with no response and no update time,
  \<^verbatim>\<open>update_outreach_response\<close> returns \<^verbatim>\<open>True\<close> and writes the response and the update time in
  one statement: every row with that id holds both afterwards, and no row with that id is among
  the pending responses. Before the call the row was pending whenever its lead exists.
\<close>

theorem outreach_response_sets_both:
  assumes "r \<in> set (outreach_log db)" and "o_id r = oid"
    and "o_response r = None" and "o_updated_at r = None"
  shows "update_outreach_response db now oid resp =
           (True, db\<lparr>outreach_log :=
              map (\<lambda>x. if o_id x = oid then x\<lparr>o_response := Some resp, o_updated_at := Some now\<rparr>
                        else x) (outreach_log db)\<rparr>) \<and>
         r\<lparr>o_response := Some resp, o_updated_at := Some now\<rparr>
           \<in> set (outreach_log (snd (update_outreach_response db now oid resp))) \<and>
         (\<forall>x \<in> set (outreach_log (snd (update_outreach_response db now oid resp))).
            o_id x = oid \<longrightarrow> o_response x = Some resp \<and> o_updated_at x = Some now) \<and>
         (\<forall>p \<in> set (get_pending_responses (snd (update_outreach_response db now oid resp))).
            o_id (fst p) \<noteq> oid) \<and>
         (\<forall>lb \<in> set (lead_bucket db). l_id lb = o_lead_id r \<longrightarrow>
            (r, l_company_name lb) \<in> set (get_pending_responses db))"
proof -
  define db' where "db' = snd (update_outreach_response db now oid resp)"
  have rows: "outreach_log db' =
      map (\<lambda>x. if o_id x = oid then x\<lparr>o_response := Some resp, o_updated_at := Some now\<rparr> else x)
        (outreach_log db)"
    by (simp add: db'_def update_outreach_response_def)
  have a: "r\<lparr>o_response := Some resp, o_updated_at := Some now\<rparr> \<in> set (outreach_log db')"
  proof -
    have "(\<lambda>x. if o_id x = oid then x\<lparr>o_response := Some resp, o_updated_at := Some now\<rparr> else x) r
        \<in> set (outreach_log db')"
      unfolding rows set_map using assms(1) by (rule imageI)
    then show ?thesis using assms(2) by simp
  qed
  have b: "o_response x = Some resp \<and> o_updated_at x = Some now"
    if x_in: "x \<in> set (outreach_log db')" and x_id: "o_id x = oid" for x
  proof -
    obtain y where "y \<in> set (outreach_log db)"
      and "x = (if o_id y = oid then y\<lparr>o_response := Some resp, o_updated_at := Some now\<rparr> else y)"
      using x_in unfolding rows set_map by blast
    then show ?thesis using x_id by (cases "o_id y = oid") simp_all
  qed
  have c: "o_id (fst p) \<noteq> oid" if "p \<in> set (get_pending_responses db')" for p
  proof
    assume "o_id (fst p) = oid"
    moreover have "fst p \<in> set (outreach_log db')" "o_response (fst p) = None"
      using that by (simp_all add: pending_rows)
    ultimately show False using b[of "fst p"] by simp
  qed
  have d: "(r, l_company_name lb) \<in> set (get_pending_responses db)"
    if "lb \<in> set (lead_bucket db)" "l_id lb = o_lead_id r" for lb
    using that assms(1,3) by (simp add: pending_rows) blast
  have e: "update_outreach_response db now oid resp =
           (True, db\<lparr>outreach_log :=
              map (\<lambda>x. if o_id x = oid then x\<lparr>o_response := Some resp, o_updated_at := Some now\<rparr>
                        else x) (outreach_log db)\<rparr>)"
    by (simp add: update_outreach_response_def)
  show ?thesis
    unfolding db'_def[symmetric]
    using a b c d e by blast
qed

theorem outreach_response_sets_both_witness:
  "\<lparr>o_id = 1, o_lead_id = 1, o_message_sent = ''Initial contact 1'', o_sent_at = 3,
     o_response = None, o_updated_at = None\<rparr> \<in> set (outreach_log ex_outreach) \<and>
   map (o_id \<circ> fst) (get_pending_responses ex_outreach) = [2, 1] \<and>
   map (o_id \<circ> fst)
     (get_pending_responses (snd (update_outreach_response ex_outreach 5 1 ''Interested''))) = [2] \<and>
   outreach_log (snd (update_outreach_response ex_outreach 5 1 ''Interested'')) =
     [\<lparr>o_id = 1, o_lead_id = 1, o_message_sent = ''Initial contact 1'', o_sent_at = 3,
       o_response = Some ''Interested'', o_updated_at = Some 5\<rparr>,
      \<lparr>o_id = 2, o_lead_id = 2, o_message_sent = ''Initial contact 2'', o_sent_at = 4,
       o_response = None, o_updated_at = None\<rparr>]"
  using outreach_response_sets_both[where db = ex_outreach and oid = 1 and now = 5
      and resp = "''Interested''"
      and r = "\<lparr>o_id = 1, o_lead_id = 1, o_message_sent = ''Initial contact 1'', o_sent_at = 3,
     o_response = None, o_updated_at = None\<rparr>"]
  by (simp add: entity_defs ex_leads_def ex_outreach_def)

section \<open>Campaign statistics\<close>

text \<open>
  What \<^verbatim>\<open>get_campaign_stats\<close> returns: the number of leads, the number of solutions per status
  present, the number of outreach rows and, when there is an outreach row, the number of them
  with a response. The scenario of the specification comes out as stated there.
\<close>

lemma campaign_stats_counts:
  "total_leads (get_campaign_stats db) = length (lead_bucket db) \<and>
   solution_stats (get_campaign_stats db) st =
     (if st \<in> s_status ` set (tailored_solutions db)
      then Some (length (filter (\<lambda>r. s_status r = st) (tailored_solutions db))) else None) \<and>
   total_outreach (outreach_stats (get_campaign_stats db)) = length (outreach_log db) \<and>
   (outreach_log db \<noteq> [] \<longrightarrow>
      responses (outreach_stats (get_campaign_stats db)) =
        Some (length (filter (\<lambda>r. o_response r \<noteq> None) (outreach_log db))))"
proof -
  have "sum_list (map (\<lambda>r. case o_response r of None \<Rightarrow> 0 | Some x \<Rightarrow> 1) rows) =
      length (filter (\<lambda>r. o_response r \<noteq> None) rows)" for rows :: "outreach_row list"
    by (induction rows) (auto split: option.splits)
  moreover have "length (filter (\<lambda>r. s_status r = st) rows) = 0 \<longleftrightarrow> st \<notin> s_status ` set rows"
    for rows :: "solution_row list"
    by (auto simp: filter_empty_conv)
  ultimately show ?thesis
    by (simp add: get_campaign_stats_def sql_sum_def Let_def)
qed

lemma campaign_stats_scenario:
  "total_leads (get_campaign_stats ex_campaign) = 3 \<and>
   solution_stats (get_campaign_stats ex_campaign) = [''pending'' \<mapsto> 1, ''approved'' \<mapsto> 1] \<and>
   total_outreach (outreach_stats (get_campaign_stats ex_campaign)) = 1 \<and>
   responses (outreach_stats (get_campaign_stats ex_campaign)) = Some 1"
  by (auto simp: entity_defs ex_leads_def ex_campaign_def fun_eq_iff)

text \<open>
  Claim C9 fails on the code where the store has no outreach row, as in a new store: the
  number of rows with a response is 0, and \<^verbatim>\<open>responses\<close> is \<^verbatim>\<open>None\<close> (the \<^verbatim>\<open>SUM\<close> over no rows),
  while \<^verbatim>\<open>total_outreach\<close>, a \<^verbatim>\<open>COUNT\<close>, is 0.
\<close>

theorem campaign_stats_no_outreach:
  "total_outreach (outreach_stats (get_campaign_stats empty_database)) = 0 \<and>
   responses (outreach_stats (get_campaign_stats empty_database)) = None \<and>
   length (filter (\<lambda>r. o_response r \<noteq> None) (outreach_log empty_database)) = 0"
  by (simp add: entity_defs)

section \<open>Updates of rows that do not exist\<close>

text \<open>
  Claim C10, amended. No update checks that the row exists. For an id with no row,
  \<^verbatim>\<open>update_lead\<close> with at least one recognised field and only bindable values for the
  recognised fields, \<^verbatim>\<open>update_solution_status\<close> with a valid status and
  \<^verbatim>\<open>update_outreach_response\<close> each return \<^verbatim>\<open>True\<close> and leave the store as it was.
\<close>

theorem updates_ignore_missing_rows:
  assumes "lead_id \<notin> l_id ` set (lead_bucket db)"
    and "solution_id \<notin> s_id ` set (tailored_solutions db)"
    and "outreach_id \<notin> o_id ` set (outreach_log db)"
  shows "(\<not> list_all (\<lambda>k. updates k = None) valid_fields \<and>
          \<not> list_ex (\<lambda>k. updates k = Some PyOther) valid_fields \<longrightarrow>
            update_lead db lead_id updates = (True, db)) \<and>
         (status \<in> set valid_statuses \<longrightarrow>
            update_solution_status db solution_id status = (True, db)) \<and>
         update_outreach_response db now outreach_id response = (True, db)"
proof -
  have a: "map (\<lambda>r. if l_id r = lead_id then lead_after updates r else r) (lead_bucket db) =
      lead_bucket db"
    using assms(1) by (intro map_idI) auto
  have b: "map (\<lambda>r. if s_id r = solution_id then r\<lparr>s_status := status\<rparr> else r)
      (tailored_solutions db) = tailored_solutions db"
    using assms(2) by (intro map_idI) auto
  have c: "map (\<lambda>r. if o_id r = outreach_id
                     then r\<lparr>o_response := Some response, o_updated_at := Some now\<rparr> else r)
      (outreach_log db) = outreach_log db"
    using assms(3) by (intro map_idI) auto
  show ?thesis
    using update_lead_char[of db lead_id updates]
    by (simp add: a b c update_solution_status_def update_outreach_response_def)
qed

theorem updates_ignore_missing_rows_witness:
  "(7::int) \<notin> l_id ` set (lead_bucket ex_leads) \<and>
   (7::int) \<notin> s_id ` set (tailored_solutions ex_leads) \<and>
   (7::int) \<notin> o_id ` set (outreach_log ex_leads) \<and>
   update_lead ex_leads 7 [''details'' \<mapsto> PyStr ''x''] = (True, ex_leads) \<and>
   update_solution_status ex_leads 7 ''approved'' = (True, ex_leads) \<and>
   update_outreach_response ex_leads 9 7 ''Interested'' = (True, ex_leads)"
  using updates_ignore_missing_rows[where db = ex_leads and lead_id = 7 and solution_id = 7
      and outreach_id = 7 and updates = "[''details'' \<mapsto> PyStr ''x'']"
      and status = "''approved''" and now = 9 and response = "''Interested''"]
  by (simp add: entity_defs ex_leads_def)

text \<open>
  The claim as stated fails: with a recognised field whose value cannot be bound,
  \<^verbatim>\<open>update_lead\<close> returns \<^verbatim>\<open>False\<close> for a missing row.
\<close>

theorem update_lead_missing_row_counterexample:
  "(7::int) \<notin> l_id ` set (lead_bucket empty_database) \<and>
   [''details'' \<mapsto> PyOther] ''details'' \<noteq> None \<and>
   update_lead empty_database 7 [''details'' \<mapsto> PyOther] = (False, empty_database)"
  by (simp add: entity_defs)

section \<open>Crawling a batch\<close>

lemma crawl_url_skip: "\<not> crawled env url \<Longrightarrow> crawl_url env tags url st = st"
  by (auto simp: crawled_def crawl_url_def split: option.splits)

lemma crawl_url_store:
  assumes "crawled env url"
  shows "\<exists>r e. crawl_url env tags url st = (fst st @ [r], snd (crawl_url env tags url st)) \<and>
           industry_data (snd (crawl_url env tags url st)) = industry_data (snd st) @ [e] \<and>
           r_source r = url \<and> i_source e = url \<and> r_id r = i_id e \<and>
           r_content r = preview (i_content e) \<and>
           i_tags e = (if truthy tags then Some (json_dumps (json_of_tags (given tags))) else None) \<and>
           r_tags r = tags"
  using assms
  by (auto simp: crawled_def crawl_url_def add_industry_data_def preview_def Let_def
      split: option.splits)

lemma crawl_fold:
  "\<exists>rs es. fst (fold (crawl_url env tags) urls st) = fst st @ rs \<and>
     industry_data (snd (fold (crawl_url env tags) urls st)) = industry_data (snd st) @ es \<and>
     map r_source rs = filter (crawled env) urls \<and>
     map i_source es = filter (crawled env) urls \<and>
     map r_id rs = map i_id es \<and>
     map r_content rs = map (\<lambda>e. preview (i_content e)) es"
proof (induction urls arbitrary: st)
  case Nil
  then show ?case by simp
next
  case (Cons url urls)
  show ?case
  proof (cases "crawled env url")
    case False
    then show ?thesis using Cons[of st] by (simp add: crawl_url_skip)
  next
    case True
    obtain r e where step: "crawl_url env tags url st = (fst st @ [r], snd (crawl_url env tags url st))"
      "industry_data (snd (crawl_url env tags url st)) = industry_data (snd st) @ [e]"
      "r_source r = url" "i_source e = url" "r_id r = i_id e" "r_content r = preview (i_content e)"
      using crawl_url_store[OF True, of tags st] by blast
    obtain rs es where rest:
      "fst (fold (crawl_url env tags) urls (crawl_url env tags url st)) =
         fst (crawl_url env tags url st) @ rs"
      "industry_data (snd (fold (crawl_url env tags) urls (crawl_url env tags url st))) =
         industry_data (snd (crawl_url env tags url st)) @ es"
      "map r_source rs = filter (crawled env) urls"
      "map i_source es = filter (crawled env) urls"
      "map r_id rs = map i_id es"
      "map r_content rs = map (\<lambda>e. preview (i_content e)) es"
      using Cons[of "crawl_url env tags url st"] by blast
    have "fst (crawl_url env tags url st) = fst st @ [r]"
      using step(1) by (metis fst_conv)
    then have "fst (fold (crawl_url env tags) (url # urls) st) = fst st @ (r # rs)"
      using rest(1) by simp
    moreover have "industry_data (snd (fold (crawl_url env tags) (url # urls) st)) =
        industry_data (snd st) @ (e # es)"
      using rest(2) step(2) by simp
    ultimately show ?thesis
      using True step(3-6) rest(3-6)
      by (intro exI[of _ "r # rs"] exI[of _ "e # es"]) simp
  qed
qed

text \<open>
  Claim C7. A URL is fetched successfully when \<^verbatim>\<open>_get_page_content\<close> returns a non-empty page
  and the page is parsed without an exception (\<open>crawled\<close>); every other URL has failed. For
  every list of URLs and every outcome of the environment, \<^verbatim>\<open>crawl_industry_data\<close> returns one
  result per successful URL, in the order of the input, and the store gains one entry per
  successful URL, in the same order, after the entries it had; each result carries the id of
  its entry and the preview of its content. A failed URL gives no result and no entry, and the
  URLs after it are processed.
\<close>

theorem crawl_batch_outcomes:
  "map r_source (fst (crawl_industry_data env db urls tags)) = filter (crawled env) urls \<and>
   take (length (industry_data db)) (industry_data (snd (crawl_industry_data env db urls tags))) =
     industry_data db \<and>
   map i_source
     (drop (length (industry_data db))
        (industry_data (snd (crawl_industry_data env db urls tags)))) = filter (crawled env) urls \<and>
   map r_id (fst (crawl_industry_data env db urls tags)) =
     map i_id (drop (length (industry_data db))
        (industry_data (snd (crawl_industry_data env db urls tags)))) \<and>
   map r_content (fst (crawl_industry_data env db urls tags)) =
     map (\<lambda>e. preview (i_content e))
       (drop (length (industry_data db))
          (industry_data (snd (crawl_industry_data env db urls tags))))"
proof -
  obtain rs es where
    "fst (crawl_industry_data env db urls tags) = rs"
    "industry_data (snd (crawl_industry_data env db urls tags)) = industry_data db @ es"
    "map r_source rs = filter (crawled env) urls"
    "map i_source es = filter (crawled env) urls"
    "map r_id rs = map i_id es"
    "map r_content rs = map (\<lambda>e. preview (i_content e)) es"
    using crawl_fold[of env tags urls "([], db)"] by (auto simp: crawl_industry_data_def)
  then show ?thesis by simp
qed

theorem crawl_batch_outcomes_witness:
  "filter (crawled ex_env) [''https://one.example'', ''https://two.example'', ''https://three.example'']
     = [''https://one.example'', ''https://three.example''] \<and>
   map r_source (fst (crawl_industry_data ex_env empty_database
      [''https://one.example'', ''https://two.example'', ''https://three.example'']
      (Some [''sales_trends'']))) = [''https://one.example'', ''https://three.example''] \<and>
   map r_id (fst (crawl_industry_data ex_env empty_database
      [''https://one.example'', ''https://two.example'', ''https://three.example'']
      (Some [''sales_trends'']))) = [1, 2] \<and>
   map r_content (fst (crawl_industry_data ex_env empty_database
      [''https://one.example'', ''https://two.example'', ''https://three.example'']
      (Some [''sales_trends'']))) = [''Sales...'', ''Sales...''] \<and>
   map i_source (industry_data (snd (crawl_industry_data ex_env empty_database
      [''https://one.example'', ''https://two.example'', ''https://three.example'']
      (Some [''sales_trends''])))) = [''https://one.example'', ''https://three.example'']"
  using crawl_batch_outcomes[where env = ex_env and db = empty_database
      and urls = "[''https://one.example'', ''https://two.example'', ''https://three.example'']"
      and tags = "Some [''sales_trends'']"]
  by (simp add: crawl_industry_data_def crawl_url_def crawled_def ex_env_def add_industry_data_def
      empty_database_def next_rowid_def truthy_def given_def json_dumps_def json_of_tags_def
      pain_points_todo_def preview_def)

section \<open>Stores of different clients\<close>

lemma os_path_join_relative:
  "b \<noteq> [] \<Longrightarrow> hd b \<noteq> CHR ''/'' \<Longrightarrow>
   os_path_join a b = (if a = [] \<or> last a = CHR ''/'' then a else a @ ''/'') @ b"
  by (simp add: os_path_join_def)

lemma db_file_relative:
  "CHR ''/'' \<notin> set c \<Longrightarrow> c @ ''.db'' \<noteq> [] \<and> hd (c @ ''.db'') \<noteq> CHR ''/''"
  by (cases c) auto

lemma get_db_path_relative:
  assumes "CHR ''/'' \<notin> set c"
  shows "get_db_path dir c =
     (if os_path_join dir ''client_dbs'' = [] \<or> last (os_path_join dir ''client_dbs'') = CHR ''/''
      then os_path_join dir ''client_dbs'' else os_path_join dir ''client_dbs'' @ ''/'') @
     (c @ ''.db'')"
  unfolding get_db_path_def
  using db_file_relative[OF assms] by (intro os_path_join_relative) blast+

lemma get_db_path_inj:
  assumes "CHR ''/'' \<notin> set a" and "CHR ''/'' \<notin> set b"
    and "get_db_path dir a = get_db_path dir b"
  shows "a = b"
proof -
  have "a @ ''.db'' = b @ ''.db''"
    using assms(3)
    unfolding get_db_path_relative[OF assms(1)] get_db_path_relative[OF assms(2)]
    by (rule same_append_eq[THEN iffD1])
  then show ?thesis by (rule append_same_eq[THEN iffD1])
qed

lemma store_write_other:
  "get_db_path dir a \<noteq> get_db_path dir b \<Longrightarrow>
   open_store (get_db_path dir b) (store_write dir a w fs) = open_store (get_db_path dir b) fs"
  by (simp add: store_write_def open_store_def Let_def)

lemma store_writes_other:
  "get_db_path dir a \<noteq> get_db_path dir b \<Longrightarrow>
   open_store (get_db_path dir b) (fold (store_write dir a) ws fs) =
     open_store (get_db_path dir b) fs"
  by (induction ws arbitrary: fs) (simp_all add: store_write_other)

text \<open>
  Claim C1, amended. For two different client identifiers that contain no slash, no sequence
  of writes through the store of the first changes what any read through the store of the
  second returns.
\<close>

theorem tenant_isolation:
  assumes "CHR ''/'' \<notin> set a" and "CHR ''/'' \<notin> set b" and "a \<noteq> b"
  shows "store_read dir b q (fold (store_write dir a) ws fs) = store_read dir b q fs"
proof -
  have "get_db_path dir a \<noteq> get_db_path dir b"
    using get_db_path_inj[OF assms(1,2)] assms(3) by blast
  then show ?thesis by (simp add: store_read_def store_writes_other)
qed

theorem tenant_isolation_witness:
  "CHR ''/'' \<notin> set ''alice'' \<and> CHR ''/'' \<notin> set ''bob'' \<and> ''alice'' \<noteq> ''bob'' \<and>
   store_read ''/app/database'' ''bob'' (\<lambda>db. total_leads (get_campaign_stats db))
     (fold (store_write ''/app/database'' ''alice'')
        [AddLead 2 ''Tech Corp'' ''w'' ''c'' ''d'', AddLead 3 ''Cloud Inc'' ''w'' ''c'' ''d'']
        (store_write ''/app/database'' ''bob'' (AddLead 1 ''Own lead'' ''w'' ''c'' ''d'') Map.empty)) = 1"
  using tenant_isolation[where a = "''alice''" and b = "''bob''" and dir = "''/app/database''"
      and q = "\<lambda>db. total_leads (get_campaign_stats db)"
      and ws = "[AddLead 2 ''Tech Corp'' ''w'' ''c'' ''d'', AddLead 3 ''Cloud Inc'' ''w'' ''c'' ''d'']"
      and fs = "store_write ''/app/database'' ''bob'' (AddLead 1 ''Own lead'' ''w'' ''c'' ''d'') Map.empty"]
  by (simp add: store_read_def store_write_def open_store_def get_db_path_def os_path_join_def
      add_lead_def empty_database_def next_rowid_def get_campaign_stats_def Let_def)

text \<open>
  The claim as stated fails for identifiers with a slash: \<^verbatim>\<open>os.path.join\<close> drops the directory
  before an absolute component, so the identifiers \<^verbatim>\<open>bob\<close> and
  \<^verbatim>\<open>/app/database/client_dbs/bob\<close> of a module in \<^verbatim>\<open>/app/database\<close> name the same file, and a
  lead added through the first is counted through the second.
\<close>

theorem tenant_path_alias_counterexample:
  "''bob'' \<noteq> ''/app/database/client_dbs/bob'' \<and>
   store_read ''/app/database'' ''/app/database/client_dbs/bob''
     (\<lambda>db. total_leads (get_campaign_stats db)) Map.empty = 0 \<and>
   store_read ''/app/database'' ''/app/database/client_dbs/bob''
     (\<lambda>db. total_leads (get_campaign_stats db))
     (store_write ''/app/database'' ''bob'' (AddLead 1 ''Tech Corp'' ''w'' ''c'' ''d'') Map.empty) = 1"
  by (simp add: store_read_def store_write_def open_store_def get_db_path_def os_path_join_def
      add_lead_def empty_database_def next_rowid_def get_campaign_stats_def Let_def)

end
